theory Spec2Isabelle
  imports Complex_Main "HOL-Library.Word" "HOL-Library.Multiset" "HOL-Library.Sublist"
begin

section \<open>JavaScript numbers\<close>

text \<open>
  A JavaScript \<^verbatim>\<open>number\<close> is an IEEE-754 double. The model keeps the three special
  values and the rules of arithmetic on them, because the code under study divides and
  compares without guarding against them. A finite number is an exact real: rounding,
  overflow to an infinity, underflow to zero and the sign of zero are left out (a zero
  divisor counts as \<open>+0\<close>).
\<close>

datatype jsnum = Fin real | PInf | NInf | NaN

fun js_neg :: "jsnum \<Rightarrow> jsnum" where
  "js_neg (Fin a) = Fin (- a)"
| "js_neg PInf = NInf"
| "js_neg NInf = PInf"
| "js_neg NaN = NaN"

fun js_add :: "jsnum \<Rightarrow> jsnum \<Rightarrow> jsnum" where
  "js_add (Fin a) (Fin b) = Fin (a + b)"
| "js_add NaN _ = NaN"
| "js_add _ NaN = NaN"
| "js_add PInf NInf = NaN"
| "js_add NInf PInf = NaN"
| "js_add PInf _ = PInf"
| "js_add _ PInf = PInf"
| "js_add NInf _ = NInf"
| "js_add _ NInf = NInf"

definition js_sub :: "jsnum \<Rightarrow> jsnum \<Rightarrow> jsnum" where
  "js_sub a b = js_add a (js_neg b)"

fun js_mul :: "jsnum \<Rightarrow> jsnum \<Rightarrow> jsnum" where
  "js_mul (Fin a) (Fin b) = Fin (a * b)"
| "js_mul NaN _ = NaN"
| "js_mul _ NaN = NaN"
| "js_mul PInf (Fin b) = (if b = 0 then NaN else if 0 < b then PInf else NInf)"
| "js_mul NInf (Fin b) = (if b = 0 then NaN else if 0 < b then NInf else PInf)"
| "js_mul (Fin a) PInf = (if a = 0 then NaN else if 0 < a then PInf else NInf)"
| "js_mul (Fin a) NInf = (if a = 0 then NaN else if 0 < a then NInf else PInf)"
| "js_mul PInf PInf = PInf"
| "js_mul NInf NInf = PInf"
| "js_mul PInf NInf = NInf"
| "js_mul NInf PInf = NInf"

fun js_div :: "jsnum \<Rightarrow> jsnum \<Rightarrow> jsnum" where
  "js_div (Fin a) (Fin b) =
     (if b = 0 then (if a = 0 then NaN else if 0 < a then PInf else NInf)
      else Fin (a / b))"
| "js_div NaN _ = NaN"
| "js_div _ NaN = NaN"
| "js_div (Fin a) PInf = Fin 0"
| "js_div (Fin a) NInf = Fin 0"
| "js_div PInf (Fin b) = (if b < 0 then NInf else PInf)"
| "js_div NInf (Fin b) = (if b < 0 then PInf else NInf)"
| "js_div PInf PInf = NaN"
| "js_div PInf NInf = NaN"
| "js_div NInf PInf = NaN"
| "js_div NInf NInf = NaN"

text \<open>\<^verbatim>\<open>Math.sqrt\<close>: NaN below zero.\<close>

fun js_sqrt :: "jsnum \<Rightarrow> jsnum" where
  "js_sqrt (Fin a) = (if a < 0 then NaN else Fin (sqrt a))"
| "js_sqrt PInf = PInf"
| "js_sqrt NInf = NaN"
| "js_sqrt NaN = NaN"

text \<open>The comparisons \<^verbatim>\<open>a >= b\<close>, \<^verbatim>\<open>a > b\<close> and \<^verbatim>\<open>a === b\<close>: all false on NaN.\<close>

fun js_ge :: "jsnum \<Rightarrow> jsnum \<Rightarrow> bool" where
  "js_ge (Fin a) (Fin b) = (b \<le> a)"
| "js_ge NaN _ = False"
| "js_ge _ NaN = False"
| "js_ge PInf _ = True"
| "js_ge _ NInf = True"
| "js_ge NInf _ = False"
| "js_ge _ PInf = False"

fun js_gt :: "jsnum \<Rightarrow> jsnum \<Rightarrow> bool" where
  "js_gt (Fin a) (Fin b) = (b < a)"
| "js_gt NaN _ = False"
| "js_gt _ NaN = False"
| "js_gt NInf _ = False"
| "js_gt _ PInf = False"
| "js_gt PInf _ = True"
| "js_gt _ NInf = True"

fun js_strict_eq :: "jsnum \<Rightarrow> jsnum \<Rightarrow> bool" where
  "js_strict_eq NaN _ = False"
| "js_strict_eq _ NaN = False"
| "js_strict_eq a b = (a = b)"

section \<open>Thrown values\<close>

text \<open>
  A JavaScript string is a sequence of UTF-16 code units. \<open>str\<close> writes the ASCII
  literals of the source.
\<close>

type_synonym js_string = "16 word list"

definition str :: "string \<Rightarrow> js_string" where
  "str s = map (\<lambda>c. of_nat (of_char c)) s"

text \<open>
  What a \<^verbatim>\<open>throw\<close> or a rejected promise carries: an \<^verbatim>\<open>Error\<close> with its message, or
  any other value.
\<close>

datatype thrown = Error js_string | NonError

section \<open>Cosine similarity (\<^verbatim>\<open>lib/utils/vector-search.ts\<close>)\<close>

text \<open>
  \<^verbatim>\<open>vec[i]\<close>: reading past the end gives \<^verbatim>\<open>undefined\<close>, which arithmetic turns
  into NaN.
\<close>

definition js_index :: "jsnum list \<Rightarrow> nat \<Rightarrow> jsnum" where
  "js_index vec i = (if i < length vec then vec ! i else NaN)"

text \<open>The \<^verbatim>\<open>for\<close> loop of \<^verbatim>\<open>cosineSimilarity\<close>, with its three accumulators.\<close>

function cosine_loop ::
  "jsnum list \<Rightarrow> jsnum list \<Rightarrow> nat \<Rightarrow> jsnum \<times> jsnum \<times> jsnum \<Rightarrow> jsnum \<times> jsnum \<times> jsnum" where
  "cosine_loop vecA vecB i (dotProduct, normA, normB) =
     (if i < length vecA
      then cosine_loop vecA vecB (i + 1)
             (js_add dotProduct (js_mul (js_index vecA i) (js_index vecB i)),
              js_add normA (js_mul (js_index vecA i) (js_index vecA i)),
              js_add normB (js_mul (js_index vecB i) (js_index vecB i)))
      else (dotProduct, normA, normB))"
  by pat_completeness auto
termination
  by (relation "measure (\<lambda>(vecA, vecB, i, acc). length vecA - i)") auto

declare cosine_loop.simps [simp del]

definition length_error :: thrown where
  "length_error = Error (str ''Vectors must have the same length'')"

definition cosineSimilarity :: "jsnum list \<Rightarrow> jsnum list \<Rightarrow> thrown + jsnum" where
  "cosineSimilarity vecA vecB =
     (if length vecA \<noteq> length vecB then Inl length_error
      else
        (case cosine_loop vecA vecB 0 (Fin 0, Fin 0, Fin 0) of
           (dotProduct, normA0, normB0) \<Rightarrow>
             (let normA = js_sqrt normA0; normB = js_sqrt normB0
              in if js_strict_eq normA (Fin 0) \<or> js_strict_eq normB (Fin 0) then Inr (Fin 0)
                 else Inr (js_div dotProduct (js_mul normA normB)))))"

text \<open>The Euclidean norm of a vector, its squares summed from the left.\<close>

definition euclidean_norm :: "jsnum list \<Rightarrow> jsnum" where
  "euclidean_norm a = js_sqrt (foldl js_add (Fin 0) (map (\<lambda>x. js_mul x x) a))"

section \<open>Cosine similarity over any arithmetic\<close>

text \<open>
  What \<^verbatim>\<open>cosineSimilarity\<close> returns depends on how numbers add, multiply, divide and
  take roots. Here the function is translated once more with that arithmetic left open:
  the number \<^verbatim>\<open>0\<close>, the operators \<^verbatim>\<open>+\<close>, \<^verbatim>\<open>*\<close> and \<^verbatim>\<open>/\<close>, \<^verbatim>\<open>Math.sqrt\<close>, the test
  \<^verbatim>\<open>=== 0\<close>, and the number that arithmetic makes of \<^verbatim>\<open>undefined\<close>. The IEEE doubles
  with their rounding, overflow and underflow are one such arithmetic; the exact one of
  \<open>jsnum\<close> is another.
\<close>

record 'n arithmetic =
  num_zero :: 'n
  num_add :: "'n \<Rightarrow> 'n \<Rightarrow> 'n"
  num_mul :: "'n \<Rightarrow> 'n \<Rightarrow> 'n"
  num_div :: "'n \<Rightarrow> 'n \<Rightarrow> 'n"
  num_sqrt :: "'n \<Rightarrow> 'n"
  num_is_zero :: "'n \<Rightarrow> bool"
  num_undefined :: 'n

definition index_in :: "'n arithmetic \<Rightarrow> 'n list \<Rightarrow> nat \<Rightarrow> 'n" where
  "index_in A vec i = (if i < length vec then vec ! i else num_undefined A)"

function cosine_loop_in ::
  "'n arithmetic \<Rightarrow> 'n list \<Rightarrow> 'n list \<Rightarrow> nat \<Rightarrow> 'n \<times> 'n \<times> 'n \<Rightarrow> 'n \<times> 'n \<times> 'n" where
  "cosine_loop_in A vecA vecB i (dotProduct, normA, normB) =
     (if i < length vecA
      then cosine_loop_in A vecA vecB (i + 1)
             (num_add A dotProduct (num_mul A (index_in A vecA i) (index_in A vecB i)),
              num_add A normA (num_mul A (index_in A vecA i) (index_in A vecA i)),
              num_add A normB (num_mul A (index_in A vecB i) (index_in A vecB i)))
      else (dotProduct, normA, normB))"
  by pat_completeness auto
termination
  by (relation "measure (\<lambda>(A, vecA, vecB, i, acc). length vecA - i)") auto

declare cosine_loop_in.simps [simp del]

definition cosineSimilarity_in :: "'n arithmetic \<Rightarrow> 'n list \<Rightarrow> 'n list \<Rightarrow> thrown + 'n" where
  "cosineSimilarity_in A vecA vecB =
     (if length vecA \<noteq> length vecB then Inl length_error
      else
        (case cosine_loop_in A vecA vecB 0 (num_zero A, num_zero A, num_zero A) of
           (dotProduct, normA0, normB0) \<Rightarrow>
             (let normA = num_sqrt A normA0; normB = num_sqrt A normB0
              in if num_is_zero A normA \<or> num_is_zero A normB then Inr (num_zero A)
                 else Inr (num_div A dotProduct (num_mul A normA normB)))))"

text \<open>
  The dot product and the Euclidean norm in that arithmetic, summed from the left as the
  loop does.
\<close>

definition dot_product_in :: "'n arithmetic \<Rightarrow> 'n list \<Rightarrow> 'n list \<Rightarrow> 'n" where
  "dot_product_in A a b =
     foldl (num_add A) (num_zero A) (map (\<lambda>(x, y). num_mul A x y) (zip a b))"

definition euclidean_norm_in :: "'n arithmetic \<Rightarrow> 'n list \<Rightarrow> 'n" where
  "euclidean_norm_in A a =
     num_sqrt A (foldl (num_add A) (num_zero A) (map (\<lambda>x. num_mul A x x) a))"

text \<open>The arithmetic of \<open>jsnum\<close>, with which \<open>cosineSimilarity\<close> above is written.\<close>

definition js_arithmetic :: "jsnum arithmetic" where
  "js_arithmetic =
     \<lparr>num_zero = Fin 0, num_add = js_add, num_mul = js_mul, num_div = js_div,
      num_sqrt = js_sqrt, num_is_zero = (\<lambda>x. js_strict_eq x (Fin 0)), num_undefined = NaN\<rparr>"

section \<open>Stored documents (\<^verbatim>\<open>lib/models/Document.ts\<close>)\<close>

record embedding_config =
  model :: js_string
  normalized :: bool

record rag_pipeline =
  stage :: js_string
  nextSteps :: "js_string list"
  embeddingConfig :: embedding_config

record doc_metadata =
  chunkCount :: nat
  embeddingCount :: nat
  processingTime :: nat
  ragPipeline :: rag_pipeline

record document =
  doc_id :: js_string
  userId :: js_string
  fileName :: js_string
  fileType :: js_string
  fileSize :: nat
  originalText :: js_string
  chunks :: "js_string list"
  embeddings :: "jsnum list list"
  metadata :: doc_metadata

text \<open>
  The collection is the list of its documents in retrieval order.
  \<^verbatim>\<open>Document.find({ userId })\<close> is the store's equality query: the documents whose
  \<^verbatim>\<open>userId\<close> field is the given string. A query that the database rejects is left
  out: the search would rethrow it.
\<close>

definition Document_find :: "document list \<Rightarrow> js_string \<Rightarrow> document list" where
  "Document_find store uid = filter (\<lambda>d. userId d = uid) store"

section \<open>Similarity search (\<^verbatim>\<open>lib/utils/vector-search.ts\<close>)\<close>

record search_result =
  documentId :: js_string
  res_fileName :: js_string
  chunkIndex :: nat
  chunk :: "js_string option"
  similarity :: jsnum
  res_metadata :: doc_metadata

text \<open>
  The object pushed for chunk \<open>i\<close> of a document. \<^verbatim>\<open>document.chunks[i]\<close> past the end
  of \<^verbatim>\<open>chunks\<close> is \<^verbatim>\<open>undefined\<close>, here \<open>None\<close>.
\<close>

definition make_result :: "document \<Rightarrow> nat \<Rightarrow> jsnum \<Rightarrow> search_result" where
  "make_result d i s =
     \<lparr>documentId = doc_id d, res_fileName = fileName d, chunkIndex = i,
      chunk = (if i < length (chunks d) then Some (chunks d ! i) else None),
      similarity = s, res_metadata = metadata d\<rparr>"

text \<open>
  The inner loop over the embeddings of one document. A throw of \<^verbatim>\<open>cosineSimilarity\<close>
  leaves the loop with the thrown value and drops \<^verbatim>\<open>results\<close>.
\<close>

function scan_chunks ::
  "jsnum list \<Rightarrow> jsnum \<Rightarrow> document \<Rightarrow> nat \<Rightarrow> search_result list \<Rightarrow> thrown + search_result list" where
  "scan_chunks queryEmbedding similarityThreshold d i results =
     (if i < length (embeddings d)
      then (case cosineSimilarity queryEmbedding (embeddings d ! i) of
              Inl e \<Rightarrow> Inl e
            | Inr sim \<Rightarrow>
                scan_chunks queryEmbedding similarityThreshold d (i + 1)
                  (if js_ge sim similarityThreshold then results @ [make_result d i sim]
                   else results))
      else Inr results)"
  by pat_completeness auto
termination
  by (relation "measure (\<lambda>(q, t, d, i, rs). length (embeddings d) - i)") auto

declare scan_chunks.simps [simp del]

text \<open>The outer loop over the documents; one without embeddings is passed over.\<close>

fun scan_documents ::
  "jsnum list \<Rightarrow> jsnum \<Rightarrow> document list \<Rightarrow> search_result list \<Rightarrow> thrown + search_result list" where
  "scan_documents queryEmbedding similarityThreshold [] results = Inr results"
| "scan_documents queryEmbedding similarityThreshold (d # ds) results =
     (if 0 < length (embeddings d)
      then (case scan_chunks queryEmbedding similarityThreshold d 0 results of
              Inl e \<Rightarrow> Inl e
            | Inr results' \<Rightarrow> scan_documents queryEmbedding similarityThreshold ds results')
      else scan_documents queryEmbedding similarityThreshold ds results)"

text \<open>The comparator \<^verbatim>\<open>(a, b) => b.similarity - a.similarity\<close>.\<close>

definition sort_comparator :: "search_result \<Rightarrow> search_result \<Rightarrow> jsnum" where
  "sort_comparator a b = js_sub (similarity b) (similarity a)"

text \<open>
  \<^verbatim>\<open>Array.prototype.sort\<close> is stable, and the language fixes its result whenever the
  comparator is a consistent ordering; the algorithm is left open. The model is the
  stable insertion sort: an element goes behind exactly those it compares greater than
  zero with, and a NaN from the comparator counts as zero.
\<close>

fun sort_insert :: "('a \<Rightarrow> 'a \<Rightarrow> jsnum) \<Rightarrow> 'a \<Rightarrow> 'a list \<Rightarrow> 'a list" where
  "sort_insert cmp x [] = [x]"
| "sort_insert cmp x (y # ys) =
     (if js_gt (cmp x y) (Fin 0) then y # sort_insert cmp x ys else x # y # ys)"

definition array_sort :: "('a \<Rightarrow> 'a \<Rightarrow> jsnum) \<Rightarrow> 'a list \<Rightarrow> 'a list" where
  "array_sort cmp xs = foldr (sort_insert cmp) xs []"

text \<open>
  \<^verbatim>\<open>slice(0, end)\<close>: \<^verbatim>\<open>end\<close> is cut to an integer towards zero (NaN is 0); a negative
  one counts from the end of the array.
\<close>

fun slice_final :: "nat \<Rightarrow> jsnum \<Rightarrow> nat" where
  "slice_final len NaN = 0"
| "slice_final len NInf = 0"
| "slice_final len PInf = len"
| "slice_final len (Fin e) =
     (let relativeEnd = (if 0 \<le> e then \<lfloor>e\<rfloor> else \<lceil>e\<rceil>)
      in if relativeEnd < 0 then nat (max (int len + relativeEnd) 0)
         else nat (min relativeEnd (int len)))"

definition array_slice0 :: "'a list \<Rightarrow> jsnum \<Rightarrow> 'a list" where
  "array_slice0 xs end_arg = take (slice_final (length xs) end_arg) xs"

text \<open>
  \<^verbatim>\<open>searchSimilarDocuments\<close>; an argument left out is \<open>None\<close> and takes its default.
  The \<^verbatim>\<open>catch\<close> block rethrows what it caught.
\<close>

definition limit_of :: "jsnum option \<Rightarrow> jsnum" where
  "limit_of limit_arg = (case limit_arg of None \<Rightarrow> Fin 5 | Some l \<Rightarrow> l)"

definition threshold_of :: "jsnum option \<Rightarrow> jsnum" where
  "threshold_of threshold_arg = (case threshold_arg of None \<Rightarrow> Fin (7 / 10) | Some t \<Rightarrow> t)"

definition searchSimilarDocuments ::
  "document list \<Rightarrow> jsnum list \<Rightarrow> js_string \<Rightarrow> jsnum option \<Rightarrow> jsnum option
     \<Rightarrow> thrown + search_result list" where
  "searchSimilarDocuments store queryEmbedding uid limit_arg threshold_arg =
     (let limit = limit_of limit_arg;
          similarityThreshold = threshold_of threshold_arg;
          documents = Document_find store uid
      in case scan_documents queryEmbedding similarityThreshold documents [] of
           Inl e \<Rightarrow> Inl e
         | Inr results \<Rightarrow> Inr (array_slice0 (array_sort sort_comparator results) limit))"

text \<open>
  The pairs the scan visits, in its order: documents as retrieved, chunk indices
  ascending within a document.
\<close>

definition scan_order :: "document list \<Rightarrow> (document \<times> nat) list" where
  "scan_order ds = concat (map (\<lambda>d. map (Pair d) [0..<length (embeddings d)]) ds)"

text \<open>What one visited pair contributes when the lengths agree.\<close>

definition kept_of :: "jsnum list \<Rightarrow> jsnum \<Rightarrow> document \<times> nat \<Rightarrow> search_result list" where
  "kept_of q t p =
     (case cosineSimilarity q (embeddings (fst p) ! snd p) of
        Inl e \<Rightarrow> []
      | Inr sim \<Rightarrow> if js_ge sim t then [make_result (fst p) (snd p) sim] else [])"

text \<open>The kept pairs of a search, in scan order, before the sort.\<close>

definition kept_pairs :: "jsnum list \<Rightarrow> jsnum \<Rightarrow> document list \<Rightarrow> search_result list" where
  "kept_pairs q t ds = concat (map (kept_of q t) (scan_order ds))"

section \<open>Strings\<close>

text \<open>
  The code units that \<^verbatim>\<open>String.prototype.trim\<close> strips and the regular expression
  class \<^verbatim>\<open>\s\<close> matches: white space and line terminators.
\<close>

definition is_space :: "16 word \<Rightarrow> bool" where
  "is_space c \<longleftrightarrow>
     c = 9 \<or> c = 10 \<or> c = 11 \<or> c = 12 \<or> c = 13 \<or> c = 32 \<or> c = 160 \<or> c = 0x1680
     \<or> (0x2000 \<le> c \<and> c \<le> 0x200A) \<or> c = 0x2028 \<or> c = 0x2029 \<or> c = 0x202F
     \<or> c = 0x205F \<or> c = 0x3000 \<or> c = 0xFEFF"

definition js_trim :: "js_string \<Rightarrow> js_string" where
  "js_trim s = rev (dropWhile is_space (rev (dropWhile is_space s)))"

text \<open>\<^verbatim>\<open>.replace(/\r\n/g, '\n')\<close>\<close>

fun replace_crlf :: "js_string \<Rightarrow> js_string" where
  "replace_crlf (c1 # c2 # cs) =
     (if c1 = 13 \<and> c2 = 10 then 10 # replace_crlf cs else c1 # replace_crlf (c2 # cs))"
| "replace_crlf cs = cs"

text \<open>\<^verbatim>\<open>.replace(/\r/g, '\n')\<close> and \<^verbatim>\<open>.replace(/\t/g, ' ')\<close>\<close>

definition replace_cr :: "js_string \<Rightarrow> js_string" where
  "replace_cr s = map (\<lambda>c. if c = 13 then 10 else c) s"

definition replace_tab :: "js_string \<Rightarrow> js_string" where
  "replace_tab s = map (\<lambda>c. if c = 9 then 32 else c) s"

text \<open>\<^verbatim>\<open>.replace(/\s+/g, ' ')\<close>: every maximal run of white space becomes one space.\<close>

function collapse_whitespace :: "js_string \<Rightarrow> js_string" where
  "collapse_whitespace [] = []"
| "collapse_whitespace (c # cs) =
     (if is_space c then 32 # collapse_whitespace (dropWhile is_space cs)
      else c # collapse_whitespace cs)"
  by pat_completeness auto
termination
  by (relation "measure length") (auto simp: less_Suc_eq_le length_dropWhile_le)

definition clean_text :: "js_string \<Rightarrow> js_string" where
  "clean_text extractedText =
     js_trim (collapse_whitespace (replace_tab (replace_cr (replace_crlf extractedText))))"

section \<open>Arrays\<close>

text \<open>
  \<^verbatim>\<open>Array.prototype.filter\<close>: the elements are visited from index 0 upwards and each
  one the callback accepts is appended to the new array, at its next free index.
\<close>

fun array_filter_loop :: "('a \<Rightarrow> bool) \<Rightarrow> 'a list \<Rightarrow> 'a list \<Rightarrow> 'a list" where
  "array_filter_loop p [] A = A"
| "array_filter_loop p (x # xs) A = array_filter_loop p xs (if p x then A @ [x] else A)"

definition array_filter :: "('a \<Rightarrow> bool) \<Rightarrow> 'a list \<Rightarrow> 'a list" where
  "array_filter p xs = array_filter_loop p xs []"

section \<open>Upload (\<^verbatim>\<open>POST\<close> of the upload route)\<close>

text \<open>
  \<^verbatim>\<open>chunks.filter(chunk => chunk.trim().length > 0)\<close>, the statement after the split
  in both versions of the route.
\<close>

definition filter_chunks :: "js_string list \<Rightarrow> js_string list" where
  "filter_chunks chunks' = array_filter (\<lambda>chunk. 0 < length (js_trim chunk)) chunks'"

text \<open>
  The callback mapped over \<^verbatim>\<open>embeddingResponse.embeddings\<close>. Its argument is the
  \<^verbatim>\<open>values\<close> field of one embedding, \<open>None\<close> when the field is missing;
  \<open>values_of\<close> is \<^verbatim>\<open>embedding.values || []\<close>.
\<close>

definition values_of :: "jsnum list option \<Rightarrow> jsnum list" where
  "values_of embedding_values = (case embedding_values of None \<Rightarrow> [] | Some v \<Rightarrow> v)"

definition process_embedding :: "jsnum list option \<Rightarrow> jsnum list" where
  "process_embedding embedding_values =
     (let values = values_of embedding_values;
          truncatedValues = take 768 values;
          magnitude = js_sqrt (foldl (\<lambda>sum val. js_add sum (js_mul val val)) (Fin 0) truncatedValues)
      in map (\<lambda>val. js_div val magnitude) truncatedValues)"

record uploaded_file =
  file_name :: js_string
  file_type :: js_string
  file_size :: nat

record user =
  email :: js_string
  geminiApiKey :: "js_string option"

text \<open>
  What the collaborators of one request answer: the form data, the text extractors, the
  splitter, the session, the database and the embedding service. \<open>Inl\<close> is a throw or
  a rejected promise. A session is given by the e-mail that
  \<^verbatim>\<open>session?.user?.email\<close> reads, \<open>None\<close> when the chain ends in
  \<^verbatim>\<open>undefined\<close>. \<open>Document_create\<close> answers with the id of the new document.
\<close>

record upload_env =
  request_formData :: "thrown + uploaded_file option"
  parsePDF :: "thrown + js_string"
  buffer_toString :: js_string
  mammoth_extractRawText :: "thrown + js_string"
  splitText :: "thrown + js_string list"
  getServerSession_1 :: "thrown + js_string option"
  dbConnect :: "thrown + unit"
  User_findOne :: "thrown + user option"
  embedContent :: "thrown + jsnum list option list option"
  getServerSession_2 :: "thrown + js_string option"
  Document_create :: "thrown + js_string"
  Date_now_1 :: nat
  Date_now_2 :: nat

record response_metadata =
  rm_originalText :: js_string
  rm_processingTime :: nat
  rm_ragPipeline :: rag_pipeline

record upload_response =
  success :: bool
  resp_fileName :: js_string
  resp_fileSize :: nat
  resp_fileType :: js_string
  extractedTextLength :: nat
  resp_chunkCount :: nat
  resp_embeddingCount :: nat
  hasEmbeddings :: bool
  embeddingError :: "js_string option"
  resp_chunks :: "js_string list"
  resp_embeddings :: "jsnum list list"
  resp_metadata :: response_metadata
  resp_documentId :: "js_string option"

text \<open>\<^verbatim>\<open>NextResponse.json\<close> of an error object with a status, or of the response.\<close>

datatype http_response = Json_error js_string nat | Json_ok upload_response

definition pdf_type :: js_string where
  "pdf_type = str ''application/pdf''"

definition txt_type :: js_string where
  "txt_type = str ''text/plain''"

definition docx_type :: js_string where
  "docx_type = str ''application/vnd.openxmlformats-officedocument.wordprocessingml.document''"

definition allowedTypes :: "js_string list" where
  "allowedTypes = [pdf_type, txt_type, docx_type]"

definition maxSize :: nat where
  "maxSize = 10 * 1024 * 1024"

text \<open>The branches on the file type; a parser's failure answers 400 at once.\<close>

definition extract_text :: "upload_env \<Rightarrow> uploaded_file \<Rightarrow> http_response + js_string" where
  "extract_text env file =
     (if file_type file = pdf_type then
        (case parsePDF env of
           Inl pdfError \<Rightarrow>
             Inl (Json_error
               (str ''Failed to parse PDF file. Please ensure it contains readable text.'') 400)
         | Inr fullText \<Rightarrow> Inr fullText)
      else if file_type file = txt_type then Inr (buffer_toString env)
      else if file_type file = docx_type then
        (case mammoth_extractRawText env of
           Inl docxError \<Rightarrow>
             Inl (Json_error
               (str ''Failed to parse DOCX file. Please ensure it contains readable text.'') 400)
         | Inr v \<Rightarrow> Inr v)
      else Inr [])"

definition not_authenticated :: thrown where
  "not_authenticated = Error (str ''User not authenticated'')"

definition key_not_configured :: thrown where
  "key_not_configured = Error (str ''Gemini API key not configured'')"

text \<open>
  The body of the \<^verbatim>\<open>try\<close> around embedding generation. An empty string is falsy, as
  a missing one is.
\<close>

definition embedding_try :: "upload_env \<Rightarrow> thrown + jsnum list list" where
  "embedding_try env =
     (case getServerSession_1 env of
        Inl e \<Rightarrow> Inl e
      | Inr None \<Rightarrow> Inl not_authenticated
      | Inr (Some session_email) \<Rightarrow>
          if session_email = [] then Inl not_authenticated
          else
            (case dbConnect env of
               Inl e \<Rightarrow> Inl e
             | Inr _ \<Rightarrow>
                 (case User_findOne env of
                    Inl e \<Rightarrow> Inl e
                  | Inr None \<Rightarrow> Inl key_not_configured
                  | Inr (Some u) \<Rightarrow>
                      (case geminiApiKey u of
                         None \<Rightarrow> Inl key_not_configured
                       | Some apiKey \<Rightarrow>
                           if apiKey = [] then Inl key_not_configured
                           else
                             (case embedContent env of
                                Inl e \<Rightarrow> Inl e
                              | Inr None \<Rightarrow> Inr []
                              | Inr (Some response_embeddings) \<Rightarrow>
                                  Inr (map process_embedding response_embeddings))))))"

text \<open>
  The \<^verbatim>\<open>catch\<close> of that \<^verbatim>\<open>try\<close>: the message of
  \<^verbatim>\<open>error instanceof Error ? error : new Error('Unknown embedding error')\<close>.
\<close>

definition embedding_error_message :: "thrown \<Rightarrow> js_string" where
  "embedding_error_message error =
     (case error of Error message \<Rightarrow> message | NonError \<Rightarrow> str ''Unknown embedding error'')"

definition pipeline_of :: "jsnum list list \<Rightarrow> rag_pipeline" where
  "pipeline_of embeddings' =
     \<lparr>stage = (if 0 < length embeddings' then str ''Embeddings Generated''
                else str ''Document Processing Complete''),
      nextSteps = (if 0 < length embeddings' then [str ''Storage'', str ''Retrieval Setup'']
                   else [str ''Vector Embedding'', str ''Storage'', str ''Retrieval Setup'']),
      embeddingConfig = \<lparr>model = str ''gemini-embedding-001'', normalized = True\<rparr>\<rparr>"

definition make_response ::
  "upload_env \<Rightarrow> uploaded_file \<Rightarrow> js_string \<Rightarrow> js_string list \<Rightarrow> jsnum list list
     \<Rightarrow> js_string option \<Rightarrow> upload_response" where
  "make_response env file cleanedText chunks' embeddings' error_message =
     \<lparr>success = True,
      resp_fileName = file_name file,
      resp_fileSize = file_size file,
      resp_fileType = file_type file,
      extractedTextLength = length cleanedText,
      resp_chunkCount = length chunks',
      resp_embeddingCount = length embeddings',
      hasEmbeddings = (0 < length embeddings'),
      embeddingError = error_message,
      resp_chunks = chunks',
      resp_embeddings = embeddings',
      resp_metadata =
        \<lparr>rm_originalText =
           take 500 cleanedText @ (if 500 < length cleanedText then str ''...'' else []),
         rm_processingTime = Date_now_1 env,
         rm_ragPipeline = pipeline_of embeddings'\<rparr>,
      resp_documentId = None\<rparr>"

text \<open>
  The body of the \<^verbatim>\<open>try\<close> that saves the document: the record that
  \<^verbatim>\<open>Document.create\<close> stores, or what was thrown.
\<close>

definition save_try ::
  "upload_env \<Rightarrow> uploaded_file \<Rightarrow> js_string \<Rightarrow> js_string list \<Rightarrow> jsnum list list
     \<Rightarrow> thrown + document" where
  "save_try env file cleanedText chunks' embeddings' =
     (case getServerSession_2 env of
        Inl e \<Rightarrow> Inl e
      | Inr None \<Rightarrow> Inl not_authenticated
      | Inr (Some session_email) \<Rightarrow>
          if session_email = [] then Inl not_authenticated
          else
            (case Document_create env of
               Inl e \<Rightarrow> Inl e
             | Inr new_id \<Rightarrow>
                 Inr \<lparr>doc_id = new_id,
                      userId = session_email,
                      fileName = file_name file,
                      fileType = file_type file,
                      fileSize = file_size file,
                      originalText = cleanedText,
                      chunks = chunks',
                      embeddings = embeddings',
                      metadata =
                        \<lparr>chunkCount = length chunks',
                         embeddingCount = length embeddings',
                         processingTime = Date_now_2 env,
                         ragPipeline = pipeline_of embeddings'\<rparr>\<rparr>))"

definition server_error :: http_response where
  "server_error = Json_error (str ''Failed to process file. Please try again.'') 500"

text \<open>
  The part of \<^verbatim>\<open>POST\<close> from the cleaned text on: split, filter, embed, answer, save.
  A save that throws is logged and the response goes out without a document id.
\<close>

definition process_text ::
  "upload_env \<Rightarrow> document list \<Rightarrow> uploaded_file \<Rightarrow> js_string \<Rightarrow> http_response \<times> document list" where
  "process_text env store file cleanedText =
     (case splitText env of
        Inl e \<Rightarrow> (server_error, store)
      | Inr split \<Rightarrow>
          (let chunks = filter_chunks split;
               caught = (case embedding_try env of Inl error \<Rightarrow> Some error | Inr es \<Rightarrow> None);
               embeddings = (case embedding_try env of Inl error \<Rightarrow> [] | Inr es \<Rightarrow> es);
               response = make_response env file cleanedText chunks embeddings
                            (map_option embedding_error_message caught)
           in case save_try env file cleanedText chunks embeddings of
                Inl dbError \<Rightarrow> (Json_ok response, store)
              | Inr savedDocument \<Rightarrow>
                  (Json_ok (response\<lparr>resp_documentId := Some (doc_id savedDocument)\<rparr>),
                   store @ [savedDocument])))"

text \<open>
  \<^verbatim>\<open>POST\<close>: the response and the collection after the request. Whatever is thrown
  outside the inner \<^verbatim>\<open>try\<close> blocks ends in the outer \<^verbatim>\<open>catch\<close>.
\<close>

definition POST :: "upload_env \<Rightarrow> document list \<Rightarrow> http_response \<times> document list" where
  "POST env store =
     (case request_formData env of
        Inl e \<Rightarrow> (server_error, store)
      | Inr None \<Rightarrow> (Json_error (str ''No file provided'') 400, store)
      | Inr (Some file) \<Rightarrow>
          if file_type file \<notin> set allowedTypes then
            (Json_error (str ''Unsupported file type. Please upload PDF, TXT, or DOCX files.'') 400,
             store)
          else if maxSize < file_size file then
            (Json_error (str ''File size too large. Maximum size is 10MB.'') 400, store)
          else
            (case extract_text env file of
               Inl response \<Rightarrow> (response, store)
             | Inr extractedText \<Rightarrow>
                 if extractedText = [] \<or> length (js_trim extractedText) = 0 then
                   (Json_error (str ''No text content could be extracted from the file.'') 400,
                    store)
                 else process_text env store file (clean_text extractedText)))"

section \<open>Sample data\<close>

text \<open>Concrete documents on which the theorems below are evaluated.\<close>

definition sample_metadata :: doc_metadata where
  "sample_metadata =
     \<lparr>chunkCount = 0, embeddingCount = 0, processingTime = 0,
      ragPipeline = \<lparr>stage = str ''Embeddings Generated'',
        nextSteps = [str ''Storage'', str ''Retrieval Setup''],
        embeddingConfig = \<lparr>model = str ''gemini-embedding-001'', normalized = True\<rparr>\<rparr>\<rparr>"

definition sample_document ::
  "string \<Rightarrow> string \<Rightarrow> js_string list \<Rightarrow> jsnum list list \<Rightarrow> document" where
  "sample_document did uid cs es =
     \<lparr>doc_id = str did, userId = str uid, fileName = str ''notes.txt'',
      fileType = str ''text/plain'', fileSize = 0, originalText = [],
      chunks = cs, embeddings = es, metadata = sample_metadata\<rparr>"

definition sample_store :: "document list" where
  "sample_store =
     [sample_document ''d1'' ''ann'' [str ''a'', str ''b'', str ''c'']
        [[Fin 1, Fin 0], [Fin 0, Fin 1], [Fin 1, Fin 0]],
      sample_document ''d2'' ''bob'' [str ''x''] [[Fin 1, Fin 0]]]"

text \<open>
  A request with a plain-text file of eleven characters, split into three chunks, by a
  signed-in user; the answers of the user lookup, of the embedding service and of the
  save are left open.
\<close>

definition sample_file :: uploaded_file where
  "sample_file = \<lparr>file_name = str ''notes.txt'', file_type = txt_type, file_size = 11\<rparr>"

definition sample_env ::
  "thrown + user option \<Rightarrow> thrown + jsnum list option list option \<Rightarrow> thrown + js_string
     \<Rightarrow> upload_env" where
  "sample_env found embedded created =
     \<lparr>request_formData = Inr (Some sample_file),
      parsePDF = Inl NonError,
      buffer_toString = str ''hello world'',
      mammoth_extractRawText = Inl NonError,
      splitText = Inr [str ''hello'', str '' '', str ''world''],
      getServerSession_1 = Inr (Some (str ''ann'')),
      dbConnect = Inr (),
      User_findOne = found,
      embedContent = embedded,
      getServerSession_2 = Inr (Some (str ''ann'')),
      Document_create = created,
      Date_now_1 = 1,
      Date_now_2 = 2\<rparr>"

section \<open>Properties of cosine similarity\<close>

lemma cosine_loop_unfold:
  "cosine_loop vecA vecB i acc =
     (if i < length vecA
      then cosine_loop vecA vecB (Suc i)
             (js_add (fst acc) (js_mul (js_index vecA i) (js_index vecB i)),
              js_add (fst (snd acc)) (js_mul (js_index vecA i) (js_index vecA i)),
              js_add (snd (snd acc)) (js_mul (js_index vecB i) (js_index vecB i)))
      else acc)"
  by (cases acc) (simp add: cosine_loop.simps)

lemma cosine_loop_in_unfold:
  "cosine_loop_in A vecA vecB i acc =
     (if i < length vecA
      then cosine_loop_in A vecA vecB (Suc i)
             (num_add A (fst acc) (num_mul A (index_in A vecA i) (index_in A vecB i)),
              num_add A (fst (snd acc)) (num_mul A (index_in A vecA i) (index_in A vecA i)),
              num_add A (snd (snd acc)) (num_mul A (index_in A vecB i) (index_in A vecB i)))
      else acc)"
  by (cases acc) (simp add: cosine_loop_in.simps)

lemma cosine_loop_in_sums:
  assumes "length vecA = length vecB"
  shows "cosine_loop_in A vecA vecB i (d, na, nb) =
    (foldl (num_add A) d (map (\<lambda>(x, y). num_mul A x y) (drop i (zip vecA vecB))),
     foldl (num_add A) na (map (\<lambda>x. num_mul A x x) (drop i vecA)),
     foldl (num_add A) nb (map (\<lambda>x. num_mul A x x) (drop i vecB)))"
proof (induction "length vecA - i" arbitrary: i d na nb)
  case 0
  then have "\<not> i < length vecA" by simp
  with assms show ?case
    by (subst cosine_loop_in_unfold) simp
next
  case (Suc n)
  then have lt: "i < length vecA" and n: "n = length vecA - Suc i" by simp_all
  from lt assms have ltB: "i < length vecB" by simp
  from lt ltB have z: "drop i (zip vecA vecB) = (vecA ! i, vecB ! i) # drop (Suc i) (zip vecA vecB)"
    by (simp add: Cons_nth_drop_Suc [symmetric])
  from lt have a: "drop i vecA = vecA ! i # drop (Suc i) vecA"
    by (simp add: Cons_nth_drop_Suc)
  from ltB have b: "drop i vecB = vecB ! i # drop (Suc i) vecB"
    by (simp add: Cons_nth_drop_Suc)
  show ?case
    by (subst cosine_loop_in_unfold) (simp add: lt ltB Suc.hyps(1) [OF n] z a b index_in_def)
qed

lemma js_arithmetic_simps:
  "num_zero js_arithmetic = Fin 0"
  "num_add js_arithmetic = js_add"
  "num_mul js_arithmetic = js_mul"
  "num_div js_arithmetic = js_div"
  "num_sqrt js_arithmetic = js_sqrt"
  "num_is_zero js_arithmetic x = js_strict_eq x (Fin 0)"
  "num_undefined js_arithmetic = NaN"
  by (simp_all add: js_arithmetic_def)

lemma cosine_loop_instance:
  "cosine_loop_in js_arithmetic vecA vecB i acc = cosine_loop vecA vecB i acc"
proof (induction "length vecA - i" arbitrary: i acc)
  case 0
  then show ?case
    by (subst cosine_loop_in_unfold, subst cosine_loop_unfold) simp
next
  case (Suc n)
  then have lt: "i < length vecA" and n: "n = length vecA - Suc i" by simp_all
  show ?case
    by (subst cosine_loop_in_unfold, subst cosine_loop_unfold)
       (simp add: lt Suc.hyps(1) [OF n] js_arithmetic_simps index_in_def js_index_def)
qed

lemma cosineSimilarity_instance:
  "cosineSimilarity_in js_arithmetic vecA vecB = cosineSimilarity vecA vecB"
  by (simp add: cosineSimilarity_in_def cosineSimilarity_def cosine_loop_instance
      js_arithmetic_simps Let_def split: prod.splits)

lemma zero_vector_norm:
  assumes "num_mul A (num_zero A) (num_zero A) = num_zero A"
    and "num_add A (num_zero A) (num_zero A) = num_zero A"
    and "\<forall>x \<in> set a. x = num_zero A"
  shows "foldl (num_add A) (num_zero A) (map (\<lambda>x. num_mul A x x) a) = num_zero A"
  using assms(3) by (induction a) (simp_all add: assms(1,2))

section \<open>The scan of the candidate embeddings\<close>

lemma scan_chunks_unfold:
  "scan_chunks q t d i rs =
     (if i < length (embeddings d)
      then (case cosineSimilarity q (embeddings d ! i) of
              Inl e \<Rightarrow> Inl e
            | Inr sim \<Rightarrow>
                scan_chunks q t d (Suc i)
                  (if js_ge sim t then rs @ [make_result d i sim] else rs))
      else Inr rs)"
  by (subst scan_chunks.simps) (simp split: sum.splits)

lemma cosineSimilarity_mismatch:
  "length vecA \<noteq> length vecB \<Longrightarrow> cosineSimilarity vecA vecB = Inl length_error"
  by (simp add: cosineSimilarity_def)

lemma cosineSimilarity_match:
  "length vecA = length vecB \<Longrightarrow> \<exists>sim. cosineSimilarity vecA vecB = Inr sim"
  by (simp add: cosineSimilarity_def Let_def split: prod.splits)

lemma scan_chunks_ok:
  assumes "\<forall>j. i \<le> j \<and> j < length (embeddings d) \<longrightarrow> length (embeddings d ! j) = length q"
  shows "scan_chunks q t d i rs =
           Inr (rs @ concat (map (\<lambda>j. kept_of q t (d, j)) [i..<length (embeddings d)]))"
  using assms
proof (induction "length (embeddings d) - i" arbitrary: i rs)
  case 0
  then show ?case by (subst scan_chunks_unfold) simp
next
  case (Suc n)
  then have lt: "i < length (embeddings d)" and n: "n = length (embeddings d) - Suc i"
    by simp_all
  from Suc.prems lt have "length q = length (embeddings d ! i)" by simp
  then obtain sim where sim: "cosineSimilarity q (embeddings d ! i) = Inr sim"
    using cosineSimilarity_match by blast
  have rest: "\<forall>j. Suc i \<le> j \<and> j < length (embeddings d) \<longrightarrow> length (embeddings d ! j) = length q"
    using Suc.prems by simp
  show ?case
    by (subst scan_chunks_unfold)
       (simp add: lt sim Suc.hyps(1) [OF n rest] upt_conv_Cons kept_of_def)
qed

lemma scan_chunks_err:
  assumes "i \<le> j" "j < length (embeddings d)" "length (embeddings d ! j) \<noteq> length q"
  shows "scan_chunks q t d i rs = Inl length_error"
  using assms
proof (induction "length (embeddings d) - i" arbitrary: i rs)
  case 0
  then show ?case by simp
next
  case (Suc n)
  then have lt: "i < length (embeddings d)" and n: "n = length (embeddings d) - Suc i"
    by simp_all
  show ?case
  proof (cases "length q = length (embeddings d ! i)")
    case False
    then show ?thesis
      by (subst scan_chunks_unfold) (simp add: lt cosineSimilarity_mismatch)
  next
    case True
    then obtain sim where sim: "cosineSimilarity q (embeddings d ! i) = Inr sim"
      using cosineSimilarity_match by blast
    from True Suc.prems have "i \<noteq> j" by auto
    with Suc.prems have "Suc i \<le> j" by simp
    from Suc.hyps(1) [OF n this Suc.prems(2,3)] show ?thesis
      by (subst scan_chunks_unfold) (simp add: lt sim)
  qed
qed

lemma scan_documents_ok:
  assumes "\<forall>d \<in> set ds. \<forall>e \<in> set (embeddings d). length e = length q"
  shows "scan_documents q t ds rs = Inr (rs @ concat (map (kept_of q t) (scan_order ds)))"
  using assms
proof (induction ds arbitrary: rs)
  case Nil
  then show ?case by (simp add: scan_order_def)
next
  case (Cons d ds)
  have "\<forall>j. 0 \<le> j \<and> j < length (embeddings d) \<longrightarrow> length (embeddings d ! j) = length q"
    using Cons.prems by simp
  from scan_chunks_ok [OF this]
  have c: "scan_chunks q t d 0 rs =
      Inr (rs @ concat (map (\<lambda>j. kept_of q t (d, j)) [0..<length (embeddings d)]))" .
  have tl: "\<forall>d \<in> set ds. \<forall>e \<in> set (embeddings d). length e = length q"
    using Cons.prems by simp
  show ?case
    by (simp add: c Cons.IH [OF tl] scan_order_def comp_def)
qed

lemma cosineSimilarity_throws:
  "cosineSimilarity vecA vecB = Inl e \<Longrightarrow> e = length_error"
  by (simp add: cosineSimilarity_def Let_def split: if_splits prod.splits)

lemma scan_chunks_throws:
  "scan_chunks q t d i rs = Inl e \<Longrightarrow> e = length_error"
proof (induction "length (embeddings d) - i" arbitrary: i rs)
  case 0
  then show ?case by (subst (asm) scan_chunks_unfold) simp
next
  case (Suc n)
  then have lt: "i < length (embeddings d)" and n: "n = length (embeddings d) - Suc i"
    by simp_all
  from Suc.prems lt show ?case
    by (subst (asm) scan_chunks_unfold)
       (auto split: sum.splits dest: cosineSimilarity_throws Suc.hyps(1) [OF n])
qed

lemma scan_documents_err:
  assumes "d \<in> set ds" "e \<in> set (embeddings d)" "length e \<noteq> length q"
  shows "scan_documents q t ds rs = Inl length_error"
  using assms(1)
proof (induction ds arbitrary: rs)
  case Nil
  then show ?case by simp
next
  case (Cons x xs)
  show ?case
  proof (cases "x = d")
    case True
    from assms(2) obtain j where j: "j < length (embeddings d)" "embeddings d ! j = e"
      by (auto simp: in_set_conv_nth)
    with assms(3) have "scan_chunks q t d 0 rs = Inl length_error"
      by (intro scan_chunks_err [of 0 j]) simp_all
    with True j show ?thesis by auto
  next
    case False
    with Cons.prems have "d \<in> set xs" by simp
    from Cons.IH [OF this] show ?thesis
      by (auto split: sum.splits dest: scan_chunks_throws)
  qed
qed

lemma scan_documents_Inr:
  assumes "scan_documents q t ds rs = Inr out"
  shows "out = rs @ concat (map (kept_of q t) (scan_order ds))"
proof (cases "\<forall>d \<in> set ds. \<forall>e \<in> set (embeddings d). length e = length q")
  case True
  from scan_documents_ok [OF this] assms show ?thesis by simp
next
  case False
  then obtain d e where "d \<in> set ds" "e \<in> set (embeddings d)" "length e \<noteq> length q"
    by blast
  from scan_documents_err [OF this] assms show ?thesis by simp
qed

lemma kept_of_cases:
  "kept_of q t p = [] \<or>
   (\<exists>sim. kept_of q t p = [make_result (fst p) (snd p) sim] \<and> js_ge sim t)"
  by (cases "cosineSimilarity q (embeddings (fst p) ! snd p)") (auto simp: kept_of_def)

lemma in_kept:
  assumes "r \<in> set (concat (map (kept_of q t) ps))"
  shows "\<exists>p \<in> set ps. \<exists>sim. r = make_result (fst p) (snd p) sim \<and> js_ge sim t"
proof -
  from assms obtain p where p: "p \<in> set ps" "r \<in> set (kept_of q t p)" by auto
  with kept_of_cases [of q t p] obtain sim
    where "r = make_result (fst p) (snd p) sim" "js_ge sim t" by auto
  with p(1) show ?thesis by blast
qed

lemma in_scan_order:
  "(d, i) \<in> set (scan_order ds) \<longleftrightarrow> d \<in> set ds \<and> i < length (embeddings d)"
  by (auto simp: scan_order_def image_iff)

section \<open>The stable sort and the slice\<close>

lemma js_ge_not_NaN: "js_ge a b \<Longrightarrow> a \<noteq> NaN \<and> b \<noteq> NaN"
  by (cases a; cases b) simp_all

lemma js_ge_trans: "js_ge a b \<Longrightarrow> js_ge b c \<Longrightarrow> js_ge a c"
  by (cases a; cases b; cases c) simp_all

lemma js_ge_total: "a \<noteq> NaN \<Longrightarrow> b \<noteq> NaN \<Longrightarrow> js_ge a b \<or> js_ge b a"
  by (cases a; cases b) auto

lemma comparator_positive:
  "a \<noteq> NaN \<Longrightarrow> b \<noteq> NaN \<Longrightarrow> js_gt (js_sub b a) (Fin 0) \<longleftrightarrow> \<not> js_ge a b"
  by (cases a; cases b) (auto simp: js_sub_def)

lemma comparator_positive_neq: "js_gt (js_sub b a) (Fin 0) \<Longrightarrow> a \<noteq> b"
  by (cases a; cases b) (auto simp: js_sub_def)

lemma set_sort_insert: "set (sort_insert cmp x ys) = insert x (set ys)"
  by (induction ys) auto

lemma mset_sort_insert: "mset (sort_insert cmp x ys) = add_mset x (mset ys)"
  by (induction ys) auto

lemma mset_array_sort: "mset (array_sort cmp xs) = mset xs"
  by (induction xs) (simp_all add: array_sort_def mset_sort_insert)

lemma set_array_sort: "set (array_sort cmp xs) = set xs"
  using mset_array_sort [of cmp xs] by (metis set_mset_mset)

lemma filter_sort_insert:
  "filter (\<lambda>r. similarity r = s) (sort_insert sort_comparator x ys) =
     (if similarity x = s then x # filter (\<lambda>r. similarity r = s) ys
      else filter (\<lambda>r. similarity r = s) ys)"
  by (induction ys) (auto simp: sort_comparator_def dest: comparator_positive_neq)

lemma filter_array_sort:
  "filter (\<lambda>r. similarity r = s) (array_sort sort_comparator xs) =
     filter (\<lambda>r. similarity r = s) xs"
  by (induction xs) (simp_all add: array_sort_def filter_sort_insert)

lemma sorted_sort_insert:
  assumes "sorted_wrt (\<lambda>a b. js_ge (similarity a) (similarity b)) ys"
    and "similarity x \<noteq> NaN" and "\<forall>y \<in> set ys. similarity y \<noteq> NaN"
  shows "sorted_wrt (\<lambda>a b. js_ge (similarity a) (similarity b)) (sort_insert sort_comparator x ys)"
  using assms
proof (induction ys)
  case Nil
  then show ?case by simp
next
  case (Cons y ys)
  show ?case
  proof (cases "js_gt (sort_comparator x y) (Fin 0)")
    case True
    with Cons.prems have "\<not> js_ge (similarity x) (similarity y)"
      by (simp add: sort_comparator_def comparator_positive)
    with Cons.prems have "js_ge (similarity y) (similarity x)"
      using js_ge_total [of "similarity x" "similarity y"] by auto
    with True Cons show ?thesis
      by (auto simp: set_sort_insert)
  next
    case False
    with Cons.prems have xy: "js_ge (similarity x) (similarity y)"
      by (simp add: sort_comparator_def comparator_positive)
    with False Cons.prems show ?thesis
      by (auto intro: js_ge_trans)
  qed
qed

lemma sorted_array_sort:
  assumes "\<forall>x \<in> set xs. similarity x \<noteq> NaN"
  shows "sorted_wrt (\<lambda>a b. js_ge (similarity a) (similarity b)) (array_sort sort_comparator xs)"
  using assms
proof (induction xs)
  case Nil
  then show ?case by (simp add: array_sort_def)
next
  case (Cons x xs)
  then have "sorted_wrt (\<lambda>a b. js_ge (similarity a) (similarity b)) (array_sort sort_comparator xs)"
    by simp
  from sorted_sort_insert [OF this, of x] Cons.prems show ?case
    by (simp add: array_sort_def set_array_sort [unfolded array_sort_def])
qed

lemma sorted_wrt_take: "sorted_wrt R xs \<Longrightarrow> sorted_wrt R (take k xs)"
  by (metis append_take_drop_id sorted_wrt_append)

lemma slice_final_limit:
  assumes "js_ge e (Fin 0)"
  shows "js_ge e (Fin (real (slice_final len e)))"
proof (cases e)
  case (Fin x)
  with assms have x: "0 \<le> x" by simp
  then have "0 \<le> \<lfloor>x\<rfloor>" by simp
  then have "real (nat (min \<lfloor>x\<rfloor> (int len))) \<le> real_of_int \<lfloor>x\<rfloor>"
    by (simp add: min_def)
  also have "\<dots> \<le> x" by simp
  finally show ?thesis using Fin x by (simp add: Let_def)
qed (use assms in simp_all)

lemma search_eq:
  assumes "\<forall>d \<in> set store. userId d = uid \<longrightarrow> (\<forall>e \<in> set (embeddings d). length e = length q)"
  shows "searchSimilarDocuments store q uid limit_arg threshold_arg =
    Inr (array_slice0
          (array_sort sort_comparator
            (concat (map (kept_of q (threshold_of threshold_arg))
               (scan_order (Document_find store uid)))))
          (limit_of limit_arg))"
proof -
  from assms
  have "\<forall>d \<in> set (Document_find store uid). \<forall>e \<in> set (embeddings d). length e = length q"
    by (auto simp: Document_find_def)
  from scan_documents_ok [OF this] show ?thesis
    by (simp add: searchSimilarDocuments_def)
qed

lemma kept_above_threshold:
  "r \<in> set (concat (map (kept_of q t) ps)) \<Longrightarrow> js_ge (similarity r) t"
  using in_kept [of r q t ps] by (auto simp: make_result_def)

lemma cosineSimilarity_unit: "cosineSimilarity [Fin 1, Fin 0] [Fin 1, Fin 0] = Inr (Fin 1)"
  by (simp add: cosineSimilarity_def cosine_loop_unfold js_index_def)

lemma prefix_filter_take: "prefix (filter P (take k xs)) (filter P xs)"
proof -
  have "filter P xs = filter P (take k xs) @ filter P (drop k xs)"
    by (metis append_take_drop_id filter_append)
  then show ?thesis by (simp add: prefix_def)
qed

lemma subseq_kept:
  "subseq (map (\<lambda>r. (documentId r, chunkIndex r)) (concat (map (kept_of q t) ps)))
          (map (\<lambda>p. (doc_id (fst p), snd p)) ps)"
proof (induction ps)
  case Nil
  then show ?case by simp
next
  case (Cons p ps)
  from kept_of_cases [of q t p] show ?case
  proof
    assume "kept_of q t p = []"
    with Cons show ?thesis by (auto intro: list_emb.intros)
  next
    assume "\<exists>sim. kept_of q t p = [make_result (fst p) (snd p) sim] \<and> js_ge sim t"
    then obtain sim where "kept_of q t p = [make_result (fst p) (snd p) sim]" by blast
    with Cons show ?thesis by (simp add: make_result_def)
  qed
qed

lemma cosineSimilarity_orth: "cosineSimilarity [Fin 1, Fin 0] [Fin 0, Fin 1] = Inr (Fin 0)"
  by (simp add: cosineSimilarity_def cosine_loop_unfold js_index_def)

lemma kept_of_member:
  assumes "r \<in> set (kept_of q t p)"
  shows "cosineSimilarity q (embeddings (fst p) ! snd p) = Inr (similarity r)
    \<and> r = make_result (fst p) (snd p) (similarity r)"
  using assms
  by (cases "cosineSimilarity q (embeddings (fst p) ! snd p)")
     (auto simp: kept_of_def make_result_def split: if_splits)

lemma search_results_origin:
  assumes "searchSimilarDocuments store q uid limit_arg threshold_arg = Inr res" "r \<in> set res"
  shows "\<exists>d \<in> set store. \<exists>i < length (embeddings d). userId d = uid
    \<and> cosineSimilarity q (embeddings d ! i) = Inr (similarity r)
    \<and> r = make_result d i (similarity r)"
proof -
  from assms(1) obtain kept
    where scan: "scan_documents q (threshold_of threshold_arg) (Document_find store uid) [] = Inr kept"
      and res: "res = array_slice0 (array_sort sort_comparator kept) (limit_of limit_arg)"
    by (auto simp: searchSimilarDocuments_def split: sum.splits)
  from scan_documents_Inr [OF scan]
  have kept: "kept = concat (map (kept_of q (threshold_of threshold_arg))
                 (scan_order (Document_find store uid)))"
    by simp
  from assms(2) res have "r \<in> set (array_sort sort_comparator kept)"
    by (auto simp: array_slice0_def dest: in_set_takeD)
  then have "r \<in> set kept" by (simp add: set_array_sort)
  with kept obtain p where p: "p \<in> set (scan_order (Document_find store uid))"
    and r: "r \<in> set (kept_of q (threshold_of threshold_arg) p)"
    by auto
  obtain d i where pd: "p = (d, i)" by (cases p)
  with p have "d \<in> set store" "userId d = uid" "i < length (embeddings d)"
    by (auto simp: in_scan_order Document_find_def)
  with kept_of_member [OF r] pd show ?thesis by auto
qed

section \<open>The claims about cosine similarity\<close>

text \<open>
  C5. On two vectors of equal length \<open>cosineSimilarity\<close> returns a number and never
  throws, in every arithmetic of numbers, that of the doubles included: the number 0
  when the norm of either vector, as the loop computes it, is 0, and otherwise the dot
  product divided by the product of the two norms. Where the arithmetic has
  \<open>0 * 0 = 0\<close>, \<open>0 + 0 = 0\<close> and \<open>sqrt 0 = 0\<close>, a vector of zeros on either side gives 0.
  The \<open>cosineSimilarity\<close> of the search is the instance at \<open>js_arithmetic\<close>
  (\<open>cosineSimilarity_instance\<close>).
\<close>

theorem cosineSimilarity_value:
  assumes "length vecA = length vecB"
  shows "cosineSimilarity_in A vecA vecB =
      Inr (if num_is_zero A (euclidean_norm_in A vecA) \<or> num_is_zero A (euclidean_norm_in A vecB)
           then num_zero A
           else num_div A (dot_product_in A vecA vecB)
                  (num_mul A (euclidean_norm_in A vecA) (euclidean_norm_in A vecB)))
    \<and> (num_mul A (num_zero A) (num_zero A) = num_zero A
        \<and> num_add A (num_zero A) (num_zero A) = num_zero A
        \<and> num_sqrt A (num_zero A) = num_zero A
        \<and> num_is_zero A (num_zero A)
        \<and> ((\<forall>x \<in> set vecA. x = num_zero A) \<or> (\<forall>x \<in> set vecB. x = num_zero A))
        \<longrightarrow> cosineSimilarity_in A vecA vecB = Inr (num_zero A))"
proof (intro conjI impI)
  show val: "cosineSimilarity_in A vecA vecB =
      Inr (if num_is_zero A (euclidean_norm_in A vecA) \<or> num_is_zero A (euclidean_norm_in A vecB)
           then num_zero A
           else num_div A (dot_product_in A vecA vecB)
                  (num_mul A (euclidean_norm_in A vecA) (euclidean_norm_in A vecB)))"
    using assms
    by (simp add: cosineSimilarity_in_def cosine_loop_in_sums dot_product_in_def
        euclidean_norm_in_def Let_def)
  assume laws: "num_mul A (num_zero A) (num_zero A) = num_zero A
        \<and> num_add A (num_zero A) (num_zero A) = num_zero A
        \<and> num_sqrt A (num_zero A) = num_zero A
        \<and> num_is_zero A (num_zero A)
        \<and> ((\<forall>x \<in> set vecA. x = num_zero A) \<or> (\<forall>x \<in> set vecB. x = num_zero A))"
  then have "num_is_zero A (euclidean_norm_in A vecA) \<or> num_is_zero A (euclidean_norm_in A vecB)"
    by (auto simp: euclidean_norm_in_def zero_vector_norm)
  with val show "cosineSimilarity_in A vecA vecB = Inr (num_zero A)"
    by simp
qed

theorem cosineSimilarity_value_witness:
  "length [Fin 0, Fin 0] = length [Fin 3, Fin 4]
   \<and> cosineSimilarity_in js_arithmetic [Fin 0, Fin 0] [Fin 3, Fin 4] = Inr (Fin 0)
   \<and> length [Fin 1, Fin 0] = length [Fin (- 1), Fin 0]
   \<and> euclidean_norm_in js_arithmetic [Fin 1, Fin 0] = Fin 1
   \<and> euclidean_norm_in js_arithmetic [Fin (- 1), Fin 0] = Fin 1
   \<and> dot_product_in js_arithmetic [Fin 1, Fin 0] [Fin (- 1), Fin 0] = Fin (- 1)
   \<and> cosineSimilarity_in js_arithmetic [Fin 1, Fin 0] [Fin (- 1), Fin 0] = Inr (Fin (- 1))
   \<and> cosineSimilarity_in js_arithmetic [Fin 1, Fin 0] [Fin 1, Fin 0] = Inr (Fin 1)"
  using cosineSimilarity_value [of "[Fin 0, Fin 0]" "[Fin 3, Fin 4]" js_arithmetic]
    cosineSimilarity_value [of "[Fin 1, Fin 0]" "[Fin (- 1), Fin 0]" js_arithmetic]
    cosineSimilarity_value [of "[Fin 1, Fin 0]" "[Fin 1, Fin 0]" js_arithmetic]
  by (simp add: euclidean_norm_in_def dot_product_in_def js_arithmetic_simps)

text \<open>
  C10. The length check comes before the zero-norm check. Two vectors of unequal length
  make \<open>cosineSimilarity\<close> throw whatever their components are, all zeros included; and
  a search with an all-zero query of \<open>n\<close> components throws as soon as the user has a
  stored embedding whose length is not \<open>n\<close>, instead of scoring it 0.
\<close>

theorem length_check_precedes_zero_check:
  "(length vecA \<noteq> length vecB \<longrightarrow> cosineSimilarity vecA vecB = Inl length_error)
   \<and> (d \<in> set store \<and> userId d = uid \<and> e \<in> set (embeddings d) \<and> length e \<noteq> n \<longrightarrow>
        searchSimilarDocuments store (replicate n (Fin 0)) uid limit_arg threshold_arg
          = Inl length_error)"
proof (intro conjI impI)
  assume "length vecA \<noteq> length vecB"
  then show "cosineSimilarity vecA vecB = Inl length_error"
    by (simp add: cosineSimilarity_def)
next
  assume a: "d \<in> set store \<and> userId d = uid \<and> e \<in> set (embeddings d) \<and> length e \<noteq> n"
  then have "d \<in> set (Document_find store uid)"
    by (simp add: Document_find_def)
  from scan_documents_err [OF this, of e "replicate n (Fin 0)"] a
  show "searchSimilarDocuments store (replicate n (Fin 0)) uid limit_arg threshold_arg
          = Inl length_error"
    by (simp add: searchSimilarDocuments_def)
qed

theorem length_check_precedes_zero_check_witness:
  "length [Fin 0, Fin 0] \<noteq> length [Fin 0]
   \<and> cosineSimilarity [Fin 0, Fin 0] [Fin 0] = Inl length_error
   \<and> searchSimilarDocuments [sample_document ''d1'' ''ann'' [str ''a''] [[Fin 0]]]
       (replicate 2 (Fin 0)) (str ''ann'') None None = Inl length_error"
  using length_check_precedes_zero_check [of "[Fin 0, Fin 0]" "[Fin 0]"
      "sample_document ''d1'' ''ann'' [str ''a''] [[Fin 0]]"
      "[sample_document ''d1'' ''ann'' [str ''a''] [[Fin 0]]]" "str ''ann''" "[Fin 0]" 2 None None]
  by (simp add: sample_document_def)

section \<open>The claims about the search\<close>

text \<open>
  C3. When a document of the user holds an embedding whose length differs from the
  query's, the search throws the length error of \<open>cosineSimilarity\<close>: the whole query
  is aborted and no result is returned, nothing is padded, cut or passed over.
\<close>

theorem search_aborts_on_mismatch:
  assumes "d \<in> set store" "userId d = uid" "e \<in> set (embeddings d)" "length e \<noteq> length q"
  shows "searchSimilarDocuments store q uid limit_arg threshold_arg = Inl length_error"
proof -
  from assms(1,2) have "d \<in> set (Document_find store uid)"
    by (simp add: Document_find_def)
  from scan_documents_err [OF this assms(3,4)]
  show ?thesis
    by (simp add: searchSimilarDocuments_def)
qed

theorem search_aborts_on_mismatch_witness:
  "searchSimilarDocuments
     [sample_document ''d1'' ''ann'' [str ''a'', str ''b''] [[Fin 1, Fin 0], [Fin 1]]]
     [Fin 1, Fin 0] (str ''ann'') None (Some (Fin 0)) = Inl length_error"
  using search_aborts_on_mismatch
    [of "sample_document ''d1'' ''ann'' [str ''a'', str ''b''] [[Fin 1, Fin 0], [Fin 1]]"
        "[sample_document ''d1'' ''ann'' [str ''a'', str ''b''] [[Fin 1, Fin 0], [Fin 1]]]"
        "str ''ann''" "[Fin 1]" "[Fin 1, Fin 0]" None "Some (Fin 0)"]
  by (simp add: sample_document_def)

text \<open>
  C2. When every embedding of the user's documents has the length of the query, the
  search returns a list; each result in it has a similarity of at least the threshold,
  the list is sorted by similarity from high to low, and, the limit being a count (not
  below 0), it has at most \<open>limit\<close> results.
\<close>

theorem search_limit_threshold_sorted:
  assumes "\<forall>d \<in> set store. userId d = uid \<longrightarrow> (\<forall>e \<in> set (embeddings d). length e = length q)"
  shows "\<exists>res. searchSimilarDocuments store q uid limit_arg threshold_arg = Inr res
    \<and> (js_ge (limit_of limit_arg) (Fin 0) \<longrightarrow>
         js_ge (limit_of limit_arg) (Fin (real (length res))))
    \<and> (\<forall>r \<in> set res. js_ge (similarity r) (threshold_of threshold_arg))
    \<and> sorted_wrt (\<lambda>a b. js_ge (similarity a) (similarity b)) res"
proof -
  define kept where
    "kept = concat (map (kept_of q (threshold_of threshold_arg)) (scan_order (Document_find store uid)))"
  define sorted_kept where "sorted_kept = array_sort sort_comparator kept"
  define res where "res = array_slice0 sorted_kept (limit_of limit_arg)"
  have eq: "searchSimilarDocuments store q uid limit_arg threshold_arg = Inr res"
    unfolding res_def sorted_kept_def kept_def by (rule search_eq [OF assms(1)])
  have ge: "\<forall>r \<in> set kept. js_ge (similarity r) (threshold_of threshold_arg)"
    unfolding kept_def by (blast intro: kept_above_threshold)
  then have nan: "\<forall>r \<in> set kept. similarity r \<noteq> NaN"
    by (blast dest: js_ge_not_NaN)
  have len: "length res \<le> slice_final (length sorted_kept) (limit_of limit_arg)"
    by (simp add: res_def array_slice0_def)
  have lim: "js_ge (limit_of limit_arg) (Fin (real (length res)))"
    if count: "js_ge (limit_of limit_arg) (Fin 0)"
  proof -
    have "js_ge (limit_of limit_arg)
            (Fin (real (slice_final (length sorted_kept) (limit_of limit_arg))))"
      by (rule slice_final_limit [OF count])
    moreover from len
    have "js_ge (Fin (real (slice_final (length sorted_kept) (limit_of limit_arg))))
            (Fin (real (length res)))"
      by simp
    ultimately show ?thesis by (rule js_ge_trans)
  qed
  have sub: "set res \<subseteq> set kept"
    using set_take_subset [of _ sorted_kept]
    by (simp add: res_def array_slice0_def sorted_kept_def set_array_sort)
  have srt: "sorted_wrt (\<lambda>a b. js_ge (similarity a) (similarity b)) res"
    unfolding res_def array_slice0_def sorted_kept_def
    by (intro sorted_wrt_take sorted_array_sort nan)
  from eq lim sub ge srt show ?thesis by blast
qed

theorem search_limit_threshold_sorted_witness:
  "js_ge (limit_of (Some (Fin 1))) (Fin 0)
   \<and> (\<exists>res. searchSimilarDocuments sample_store [Fin 1, Fin 0] (str ''ann'')
               (Some (Fin 1)) (Some (Fin (1 / 2))) = Inr res
        \<and> js_ge (limit_of (Some (Fin 1))) (Fin (real (length res)))
        \<and> (\<forall>r \<in> set res. js_ge (similarity r) (threshold_of (Some (Fin (1 / 2)))))
        \<and> sorted_wrt (\<lambda>a b. js_ge (similarity a) (similarity b)) res)"
  using search_limit_threshold_sorted
    [of sample_store "str ''ann''" "[Fin 1, Fin 0]" "Some (Fin 1)" "Some (Fin (1 / 2))"]
  by (simp add: sample_store_def sample_document_def limit_of_def)

text \<open>
  C7. The sort has the similarity as its only key and is stable. When the lengths agree,
  the search returns the first \<open>limit\<close> elements of the sorted kept pairs; the kept pairs
  stand in scan order (documents as retrieved, chunk index ascending); and for every
  similarity value the pairs having it come out of the sort, and of the search, in the
  order the scan kept them.
\<close>

theorem search_sort_stable:
  assumes "\<forall>d \<in> set store. userId d = uid \<longrightarrow> (\<forall>e \<in> set (embeddings d). length e = length q)"
  shows "searchSimilarDocuments store q uid limit_arg threshold_arg =
      Inr (array_slice0
            (array_sort sort_comparator
               (kept_pairs q (threshold_of threshold_arg) (Document_find store uid)))
            (limit_of limit_arg))
    \<and> subseq
        (map (\<lambda>r. (documentId r, chunkIndex r))
           (kept_pairs q (threshold_of threshold_arg) (Document_find store uid)))
        (map (\<lambda>p. (doc_id (fst p), snd p)) (scan_order (Document_find store uid)))
    \<and> (\<forall>s. filter (\<lambda>r. similarity r = s)
              (array_sort sort_comparator
                 (kept_pairs q (threshold_of threshold_arg) (Document_find store uid)))
          = filter (\<lambda>r. similarity r = s)
              (kept_pairs q (threshold_of threshold_arg) (Document_find store uid)))
    \<and> (\<forall>s. prefix
          (filter (\<lambda>r. similarity r = s)
             (array_slice0
                (array_sort sort_comparator
                   (kept_pairs q (threshold_of threshold_arg) (Document_find store uid)))
                (limit_of limit_arg)))
          (filter (\<lambda>r. similarity r = s)
             (kept_pairs q (threshold_of threshold_arg) (Document_find store uid))))"
proof (intro conjI allI)
  show "searchSimilarDocuments store q uid limit_arg threshold_arg =
      Inr (array_slice0
            (array_sort sort_comparator
               (kept_pairs q (threshold_of threshold_arg) (Document_find store uid)))
            (limit_of limit_arg))"
    unfolding kept_pairs_def by (rule search_eq [OF assms])
next
  show "subseq
        (map (\<lambda>r. (documentId r, chunkIndex r))
           (kept_pairs q (threshold_of threshold_arg) (Document_find store uid)))
        (map (\<lambda>p. (doc_id (fst p), snd p)) (scan_order (Document_find store uid)))"
    unfolding kept_pairs_def by (rule subseq_kept)
next
  fix s
  show "filter (\<lambda>r. similarity r = s)
              (array_sort sort_comparator
                 (kept_pairs q (threshold_of threshold_arg) (Document_find store uid)))
          = filter (\<lambda>r. similarity r = s)
              (kept_pairs q (threshold_of threshold_arg) (Document_find store uid))"
    by (rule filter_array_sort)
next
  fix s
  have "prefix
          (filter (\<lambda>r. similarity r = s)
             (array_slice0
                (array_sort sort_comparator
                   (kept_pairs q (threshold_of threshold_arg) (Document_find store uid)))
                (limit_of limit_arg)))
          (filter (\<lambda>r. similarity r = s)
             (array_sort sort_comparator
                   (kept_pairs q (threshold_of threshold_arg) (Document_find store uid))))"
    unfolding array_slice0_def by (rule prefix_filter_take)
  then show "prefix
          (filter (\<lambda>r. similarity r = s)
             (array_slice0
                (array_sort sort_comparator
                   (kept_pairs q (threshold_of threshold_arg) (Document_find store uid)))
                (limit_of limit_arg)))
          (filter (\<lambda>r. similarity r = s)
             (kept_pairs q (threshold_of threshold_arg) (Document_find store uid)))"
    by (simp only: filter_array_sort)
qed

theorem search_sort_stable_witness:
  "searchSimilarDocuments sample_store [Fin 1, Fin 0] (str ''ann'') None (Some (Fin (1 / 2))) =
     Inr [make_result (sample_store ! 0) 0 (Fin 1), make_result (sample_store ! 0) 2 (Fin 1)]
   \<and> kept_pairs [Fin 1, Fin 0] (Fin (1 / 2)) (Document_find sample_store (str ''ann'')) =
       [make_result (sample_store ! 0) 0 (Fin 1), make_result (sample_store ! 0) 2 (Fin 1)]"
  using search_sort_stable [of sample_store "str ''ann''" "[Fin 1, Fin 0]" None "Some (Fin (1 / 2))"]
  by (simp add: Document_find_def sample_store_def sample_document_def kept_pairs_def scan_order_def
      kept_of_def cosineSimilarity_unit cosineSimilarity_orth limit_of_def threshold_of_def
      array_sort_def sort_comparator_def make_result_def js_sub_def array_slice0_def str_def
      upt_conv_Cons)

text \<open>
  C4. A search for a user is a function of that user's own documents: two stores holding
  the same documents of the user give the same outcome. Every returned result is built
  from a document of the store owned by the user and one of its embeddings; where
  document ids are unique, no result carries the id of another user's document.
\<close>

theorem search_scoped_to_user:
  "(Document_find store' uid = Document_find store uid \<longrightarrow>
      searchSimilarDocuments store' q uid limit_arg threshold_arg
        = searchSimilarDocuments store q uid limit_arg threshold_arg)
   \<and> (searchSimilarDocuments store q uid limit_arg threshold_arg = Inr res \<longrightarrow>
        (\<forall>r \<in> set res.
           (\<exists>d \<in> set store. \<exists>i < length (embeddings d). userId d = uid
              \<and> cosineSimilarity q (embeddings d ! i) = Inr (similarity r)
              \<and> r = make_result d i (similarity r))
           \<and> (distinct (map doc_id store) \<longrightarrow>
                (\<forall>d' \<in> set store. userId d' \<noteq> uid \<longrightarrow> documentId r \<noteq> doc_id d'))))"
proof (intro conjI impI ballI)
  assume "Document_find store' uid = Document_find store uid"
  then show "searchSimilarDocuments store' q uid limit_arg threshold_arg
        = searchSimilarDocuments store q uid limit_arg threshold_arg"
    by (simp add: searchSimilarDocuments_def)
next
  fix r
  assume "searchSimilarDocuments store q uid limit_arg threshold_arg = Inr res" "r \<in> set res"
  then show "\<exists>d \<in> set store. \<exists>i < length (embeddings d). userId d = uid
              \<and> cosineSimilarity q (embeddings d ! i) = Inr (similarity r)
              \<and> r = make_result d i (similarity r)"
    by (rule search_results_origin)
next
  fix r d'
  assume a: "searchSimilarDocuments store q uid limit_arg threshold_arg = Inr res" "r \<in> set res"
    and dist: "distinct (map doc_id store)" and d': "d' \<in> set store" "userId d' \<noteq> uid"
  from search_results_origin [OF a] obtain d i where d: "d \<in> set store" "userId d = uid"
    "r = make_result d i (similarity r)" by blast
  from d(3) have id: "documentId r = doc_id d"
    by (metis make_result_def search_result.select_convs(1))
  from d d' have "d \<noteq> d'" by auto
  with dist d(1) d'(1) have "doc_id d \<noteq> doc_id d'"
    by (meson distinct_map inj_onD)
  with id show "documentId r \<noteq> doc_id d'" by simp
qed

theorem search_scoped_to_user_witness:
  "Document_find [sample_store ! 0] (str ''ann'') = Document_find sample_store (str ''ann'')
   \<and> searchSimilarDocuments [sample_store ! 0] [Fin 1, Fin 0] (str ''ann'') None None
       = searchSimilarDocuments sample_store [Fin 1, Fin 0] (str ''ann'') None None
   \<and> searchSimilarDocuments sample_store [Fin 1, Fin 0] (str ''ann'') None None
       = Inr [make_result (sample_store ! 0) 0 (Fin 1), make_result (sample_store ! 0) 2 (Fin 1)]
   \<and> distinct (map doc_id sample_store)
   \<and> userId (sample_store ! 0) = str ''ann''
   \<and> userId (sample_store ! 1) \<noteq> str ''ann''
   \<and> cosineSimilarity [Fin 1, Fin 0] (embeddings (sample_store ! 1) ! 0) = Inr (Fin 1)
   \<and> documentId (make_result (sample_store ! 0) 0 (Fin 1)) \<noteq> doc_id (sample_store ! 1)"
  using search_scoped_to_user [of "[sample_store ! 0]" "str ''ann''" sample_store "[Fin 1, Fin 0]"
      None None "[make_result (sample_store ! 0) 0 (Fin 1), make_result (sample_store ! 0) 2 (Fin 1)]"]
  by (simp add: searchSimilarDocuments_def Document_find_def sample_store_def sample_document_def
      scan_chunks_unfold cosineSimilarity_unit cosineSimilarity_orth limit_of_def threshold_of_def
      array_sort_def sort_comparator_def make_result_def js_sub_def array_slice0_def str_def)

section \<open>The claims about the upload\<close>

lemma array_filter_loop_eq: "array_filter_loop p xs A = A @ filter p xs"
  by (induction xs arbitrary: A) auto

lemma array_filter_eq: "array_filter p xs = filter p xs"
  by (simp add: array_filter_def array_filter_loop_eq)

lemma filter_by_index: "filter p xs = map (\<lambda>i. xs ! i) (filter (\<lambda>i. p (xs ! i)) [0..<length xs])"
proof -
  have "filter p (map (\<lambda>i. xs ! i) [0..<length xs]) =
          map (\<lambda>i. xs ! i) (filter (\<lambda>i. p (xs ! i)) [0..<length xs])"
    by (simp add: filter_map comp_def)
  then show ?thesis by (simp add: map_nth)
qed

text \<open>
  C9. The filter after the split keeps exactly the chunks whose trimmed content is not
  empty. The kept chunks are the chunks at the surviving indices, in ascending order of
  index, so they keep their order and sit at the positions 0, 1, 2, ... of the new
  list; every kept chunk has a trimmed length above 0.
\<close>

theorem filter_chunks_spec:
  "filter_chunks cs =
     map (\<lambda>i. cs ! i) (filter (\<lambda>i. 0 < length (js_trim (cs ! i))) [0..<length cs])
   \<and> (\<forall>c \<in> set (filter_chunks cs). 0 < length (js_trim c))
   \<and> subseq (filter_chunks cs) cs
   \<and> mset (filter_chunks cs) = filter_mset (\<lambda>c. js_trim c \<noteq> []) (mset cs)"
proof (intro conjI)
  show "filter_chunks cs =
     map (\<lambda>i. cs ! i) (filter (\<lambda>i. 0 < length (js_trim (cs ! i))) [0..<length cs])"
    unfolding filter_chunks_def array_filter_eq by (rule filter_by_index)
  show "\<forall>c \<in> set (filter_chunks cs). 0 < length (js_trim c)"
    by (simp add: filter_chunks_def array_filter_eq)
  show "subseq (filter_chunks cs) cs"
    by (simp add: filter_chunks_def array_filter_eq)
  show "mset (filter_chunks cs) = filter_mset (\<lambda>c. js_trim c \<noteq> []) (mset cs)"
    by (simp add: filter_chunks_def array_filter_eq)
qed

theorem filter_chunks_spec_witness:
  "filter_chunks [str ''a'', str ''  '', str '' b '', []] = [str ''a'', str '' b '']
   \<and> js_trim (str ''  '') = [] \<and> js_trim (str '' b '') = str ''b''"
  using filter_chunks_spec [of "[str ''a'', str ''  '', str '' b '', []]"]
  by (simp add: filter_chunks_def array_filter_def js_trim_def is_space_def str_def)

text \<open>
  C1 does not hold of the code. The callback divides every component by the magnitude
  without looking at it: on a vector of zeros the magnitude is 0, each quotient is
  \<open>0 / 0\<close>, and the vector that the callback returns consists of NaN. Nothing is
  thrown.
\<close>

theorem zero_vector_normalized_to_NaN:
  "process_embedding (Some [Fin 0, Fin 0, Fin 0]) = [NaN, NaN, NaN]"
  by (simp add: process_embedding_def values_of_def)

lemma foldl_squares:
  "foldl (\<lambda>sum val. js_add sum (js_mul val val)) a xs = foldl js_add a (map (\<lambda>x. js_mul x x) xs)"
  by (induction xs arbitrary: a) simp_all

text \<open>
  C8, as the code has it. The callback keeps the first 768 components of the raw vector,
  all of them when there are fewer, and divides each kept component by the Euclidean
  norm of the kept ones; nothing else enters the result, so components past the 768th
  have no influence. The result has \<open>min n 768\<close> components for a raw vector of \<open>n\<close>:
  exactly 768 when the raw vector has at least 768.
\<close>

theorem embedding_truncated:
  "process_embedding v =
     map (\<lambda>val. js_div val (euclidean_norm (take 768 (values_of v)))) (take 768 (values_of v))
   \<and> length (process_embedding v) = min (length (values_of v)) 768
   \<and> (768 \<le> length (values_of v) \<longrightarrow> length (process_embedding v) = 768)
   \<and> (length xs = 768 \<longrightarrow> process_embedding (Some (xs @ ys)) = process_embedding (Some xs))"
  by (simp add: process_embedding_def values_of_def euclidean_norm_def foldl_squares Let_def
      split: option.splits)

theorem embedding_truncated_witness:
  "768 \<le> length (values_of (Some (replicate 770 (Fin 1))))
   \<and> length (process_embedding (Some (replicate 770 (Fin 1)))) = 768
   \<and> length (replicate 768 (Fin 2)) = 768
   \<and> process_embedding (Some (replicate 768 (Fin 2) @ [Fin 5]))
       = process_embedding (Some (replicate 768 (Fin 2)))"
  using embedding_truncated [of "Some (replicate 770 (Fin 1))" "replicate 768 (Fin 2)" "[Fin 5]"]
  by (simp add: values_of_def)

text \<open>
  C8 as stated, exactly 768 components for every raw vector, fails on a short one: an
  embedding without \<^verbatim>\<open>values\<close> is stored as the empty vector, and a raw vector of
  two components as a vector of two.
\<close>

theorem short_embedding_counterexample:
  "process_embedding None = [] \<and> length (process_embedding None) \<noteq> 768
   \<and> process_embedding (Some [Fin 1, Fin 0]) = [Fin 1, Fin 0]
   \<and> length (process_embedding (Some [Fin 1, Fin 0])) \<noteq> 768"
  by (simp add: process_embedding_def values_of_def)

lemma POST_reaches_process_text:
  assumes "request_formData env = Inr (Some file)" "file_type file \<in> set allowedTypes"
    "file_size file \<le> maxSize" "extract_text env file = Inr extractedText"
    "js_trim extractedText \<noteq> []"
  shows "POST env store = process_text env store file (clean_text extractedText)"
proof -
  from assms(5) have "extractedText \<noteq> []" by (auto simp: js_trim_def)
  with assms show ?thesis by (simp add: POST_def)
qed

lemma sample_clean: "clean_text (str ''hello world'') = str ''hello world''"
  by (simp add: clean_text_def js_trim_def is_space_def str_def replace_cr_def replace_tab_def)

lemma sample_chunks:
  "filter_chunks [str ''hello'', str '' '', str ''world''] = [str ''hello'', str ''world'']"
  by (simp add: filter_chunks_def array_filter_def js_trim_def is_space_def str_def)

lemma sample_allowed: "file_type sample_file \<in> set allowedTypes"
  by (simp add: sample_file_def allowedTypes_def)

lemma sample_extract: "extract_text (sample_env found embedded created) sample_file = Inr (str ''hello world'')"
  by (simp add: extract_text_def sample_env_def sample_file_def txt_type_def pdf_type_def str_def)

lemma sample_trim: "js_trim (str ''hello world'') \<noteq> []"
  by (simp add: js_trim_def is_space_def str_def)

lemma str_not_empty: "str (c # cs) \<noteq> []"
  by (simp add: str_def)

lemma sample_formData:
  "request_formData (sample_env found embedded created) = Inr (Some sample_file)"
  by (simp add: sample_env_def)

lemma sample_size: "file_size sample_file \<le> maxSize"
  by (simp add: sample_file_def maxSize_def)

lemma sample_split:
  "splitText (sample_env found embedded created) = Inr [str ''hello'', str '' '', str ''world'']"
  by (simp add: sample_env_def)

lemma sample_no_key:
  "embedding_try (sample_env (Inr (Some \<lparr>email = str ''ann'', geminiApiKey = None\<rparr>))
      embedded created) = Inl key_not_configured"
  by (simp add: embedding_try_def sample_env_def str_not_empty)

lemma sample_service_error:
  "embedding_try (sample_env (Inr (Some \<lparr>email = str ''ann'', geminiApiKey = Some (str ''k'')\<rparr>))
      (Inl (Error (str ''503''))) created) = Inl (Error (str ''503''))"
  by (simp add: embedding_try_def sample_env_def str_not_empty)

lemma sample_save:
  "save_try (sample_env found embedded (Inr new_id)) sample_file text cs es =
     Inr \<lparr>doc_id = new_id, userId = str ''ann'', fileName = str ''notes.txt'',
          fileType = txt_type, fileSize = 11, originalText = text,
          chunks = cs, embeddings = es,
          metadata = \<lparr>chunkCount = length cs, embeddingCount = length es, processingTime = 2,
            ragPipeline = pipeline_of es\<rparr>\<rparr>"
  by (simp add: save_try_def sample_env_def sample_file_def str_not_empty)

lemma sample_save_fails:
  "save_try (sample_env found embedded (Inl e)) sample_file text cs es = Inl e"
  by (simp add: save_try_def sample_env_def str_not_empty)

text \<open>
  C6, as the code has it. Take an upload that reaches the embedding step and on which
  that step throws, for a missing key, a rejected key, a failing service or anything
  else. The throw is caught: the request is answered with \<open>success\<close>, the filtered
  chunks, no embeddings and the message of what was thrown. The document is then handed
  to the store with these chunks and no embeddings. When the session is still there and
  \<^verbatim>\<open>Document.create\<close> answers, the document is in the collection and its id in the
  response; when the save throws, that is caught as well, the collection is unchanged
  and the response carries no id.
\<close>

theorem embedding_failure_degrades:
  assumes "request_formData env = Inr (Some file)" "file_type file \<in> set allowedTypes"
    "file_size file \<le> maxSize" "extract_text env file = Inr extractedText"
    "js_trim extractedText \<noteq> []" "splitText env = Inr split"
    "embedding_try env = Inl error"
  shows "\<exists>response. fst (POST env store) = Json_ok response
    \<and> success response
    \<and> resp_chunks response = filter_chunks split
    \<and> resp_embeddings response = []
    \<and> \<not> hasEmbeddings response
    \<and> embeddingError response = Some (embedding_error_message error)
    \<and> (case save_try env file (clean_text extractedText) (filter_chunks split) [] of
          Inl dbError \<Rightarrow> snd (POST env store) = store \<and> resp_documentId response = None
        | Inr saved \<Rightarrow>
            snd (POST env store) = store @ [saved] \<and> chunks saved = filter_chunks split
            \<and> embeddings saved = [] \<and> resp_documentId response = Some (doc_id saved))
    \<and> (\<forall>session_email new_id.
          getServerSession_2 env = Inr (Some session_email) \<and> session_email \<noteq> []
            \<and> Document_create env = Inr new_id \<longrightarrow>
          (\<exists>saved. save_try env file (clean_text extractedText) (filter_chunks split) []
                     = Inr saved
             \<and> doc_id saved = new_id \<and> userId saved = session_email))"
proof -
  have p: "POST env store = process_text env store file (clean_text extractedText)"
    by (rule POST_reaches_process_text [OF assms(1-5)])
  show ?thesis
  proof (cases "save_try env file (clean_text extractedText) (filter_chunks split) []")
    case (Inl dbError)
    then show ?thesis
      by (auto simp: p process_text_def assms(6,7) make_response_def Let_def save_try_def)
  next
    case (Inr saved)
    then have "chunks saved = filter_chunks split \<and> embeddings saved = []"
      by (auto simp: save_try_def split: sum.splits option.splits if_splits)
    with Inr show ?thesis
      by (auto simp: p process_text_def assms(6,7) make_response_def Let_def save_try_def)
  qed
qed

theorem embedding_failure_degrades_witness:
  "(\<exists>response.
      fst (POST (sample_env (Inr (Some \<lparr>email = str ''ann'', geminiApiKey = None\<rparr>))
             (Inr None) (Inr (str ''id1''))) []) = Json_ok response
      \<and> success response
      \<and> resp_chunks response = [str ''hello'', str ''world'']
      \<and> resp_embeddings response = []
      \<and> embeddingError response = Some (str ''Gemini API key not configured'')
      \<and> resp_documentId response = Some (str ''id1''))
   \<and> snd (POST (sample_env (Inr (Some \<lparr>email = str ''ann'', geminiApiKey = None\<rparr>))
             (Inr None) (Inr (str ''id1''))) [])
       = [\<lparr>doc_id = str ''id1'', userId = str ''ann'', fileName = str ''notes.txt'',
           fileType = txt_type, fileSize = 11, originalText = str ''hello world'',
           chunks = [str ''hello'', str ''world''], embeddings = [],
           metadata = \<lparr>chunkCount = 2, embeddingCount = 0, processingTime = 2,
             ragPipeline = pipeline_of []\<rparr>\<rparr>]
   \<and> (\<exists>response.
      fst (POST (sample_env (Inr (Some \<lparr>email = str ''ann'', geminiApiKey = Some (str ''k'')\<rparr>))
             (Inl (Error (str ''503''))) (Inr (str ''id2''))) []) = Json_ok response
      \<and> success response
      \<and> resp_chunks response = [str ''hello'', str ''world'']
      \<and> resp_embeddings response = []
      \<and> embeddingError response = Some (str ''503'')
      \<and> resp_documentId response = Some (str ''id2''))"
  using embedding_failure_degrades
      [OF sample_formData sample_allowed sample_size sample_extract sample_trim sample_split
          sample_no_key, of "Inr None" "Inr (str ''id1'')" "[]"]
    embedding_failure_degrades
      [OF sample_formData sample_allowed sample_size sample_extract sample_trim sample_split
          sample_service_error, of "Inr (str ''id2'')" "[]"]
  by (auto simp: sample_clean sample_chunks sample_save embedding_error_message_def
      key_not_configured_def)

text \<open>
  C6 as stated, the chunks-only document is persisted on every such upload, fails when
  the save throws: the key is missing, \<^verbatim>\<open>Document.create\<close> is rejected, the
  response reports success and the collection stays empty.
\<close>

theorem save_failure_counterexample:
  "embedding_try (sample_env (Inr (Some \<lparr>email = str ''ann'', geminiApiKey = None\<rparr>))
      (Inr None) (Inl (Error (str ''E11000'')))) = Inl key_not_configured
   \<and> POST (sample_env (Inr (Some \<lparr>email = str ''ann'', geminiApiKey = None\<rparr>))
        (Inr None) (Inl (Error (str ''E11000'')))) []
     = (Json_ok (make_response
           (sample_env (Inr (Some \<lparr>email = str ''ann'', geminiApiKey = None\<rparr>))
              (Inr None) (Inl (Error (str ''E11000''))))
           sample_file (str ''hello world'') [str ''hello'', str ''world''] []
           (Some (str ''Gemini API key not configured''))),
        [])"
  using sample_allowed sample_size sample_trim
  by (simp add: POST_def sample_formData sample_extract process_text_def sample_split
      sample_clean sample_chunks sample_no_key sample_save_fails embedding_error_message_def
      key_not_configured_def str_not_empty)

end
